theory Spec2Isabelle
  imports Main "HOL-Library.Word"
begin

section \<open>Python values, exceptions and strings\<close>

text \<open>
  A Python \<open>str\<close> is modelled by the list of the bytes of its UTF-8 encoding. The
  operations the program applies to strings (concatenation, comparison, truthiness,
  stripping and splitting at \<open>/\<close>) commute with that encoding. The Russian message
  literals of the source are written out as their bytes.

  A Python \<open>float\<close> is the bit pattern of an IEEE 754 double; the program never
  computes with one. A \<open>dict\<close> is the list of its items in insertion order (keys
  distinct), read with \<open>map_of\<close>.
\<close>

type_synonym pyfloat = "64 word"

datatype pyval =
    PNone
  | PBool bool
  | PInt int
  | PFloat pyfloat
  | PStr string
  | PList "pyval list"
  | PDict "(pyval \<times> pyval) list"

text \<open>A \<open>Dict\<close> whose keys are string literals of the source, and keyword arguments.\<close>

type_synonym dict = "(string \<times> pyval) list"

text \<open>
  Exceptions. \<open>ApiException\<close> is the Kubernetes client's, \<open>ValidationError\<close> is
  pydantic's and \<open>OtherError\<close> stands for every other exception class a library
  raises (transport errors, YAML errors, configuration errors); each carries the text
  that \<open>str(e)\<close> gives. \<open>Exception\<close> is the builtin class the program itself raises.
\<close>

datatype exn =
    Exception string
  | ApiException string
  | ValidationError string
  | OtherError string
  | KeyError string
  | AttributeError string string

fun str :: "exn \<Rightarrow> string" where
  "str (Exception m) = m"
| "str (ApiException m) = m"
| "str (ValidationError m) = m"
| "str (OtherError m) = m"
| "str (KeyError k) = [CHR 0x27] @ k @ [CHR 0x27]"
| "str (AttributeError t a) =
     [CHR 0x27] @ t @ [CHR 0x27] @ '' object has no attribute '' @ [CHR 0x27] @ a @ [CHR 0x27]"

fun type_name :: "pyval \<Rightarrow> string" where
  "type_name PNone = ''NoneType''"
| "type_name (PBool b) = ''bool''"
| "type_name (PInt i) = ''int''"
| "type_name (PFloat f) = ''float''"
| "type_name (PStr s) = ''str''"
| "type_name (PList xs) = ''list''"
| "type_name (PDict kvs) = ''dict''"

text \<open>\<open>str(n)\<close> for a natural number: its decimal digits.\<close>

fun str_nat :: "nat \<Rightarrow> string" where
  "str_nat n =
     (if n < 10 then [''0123456789'' ! n]
      else str_nat (n div 10) @ [''0123456789'' ! (n mod 10)])"

declare str_nat.simps [simp del]

text \<open>\<open>s.rstrip(c)\<close> for a single character \<open>c\<close>.\<close>

definition rstrip :: "char \<Rightarrow> string \<Rightarrow> string" where
  "rstrip c s = rev (dropWhile (\<lambda>x. x = c) (rev s))"

text \<open>\<open>s.split(c)\<close> for a single character \<open>c\<close>: the result is never empty.\<close>

fun split :: "char \<Rightarrow> string \<Rightarrow> string list" where
  "split c [] = [[]]"
| "split c (x # xs) =
     (if x = c then [] # split c xs
      else (case split c xs of [] \<Rightarrow> [[x]] | p # ps \<Rightarrow> (x # p) # ps))"

text \<open>
  \<open>s.lower()\<close>. The letters \<open>A\<close> to \<open>Z\<close> are mapped to \<open>a\<close> to \<open>z\<close> and every other
  byte is kept. Python also lowers cased letters outside ASCII; none of them is lowered
  to a string of the letters of \<open>deployment\<close>, the only string a lowered value is
  compared with, so the comparison is the source's.
\<close>

definition lower_char :: "char \<Rightarrow> char" where
  "lower_char c =
     (case map_of (zip ''ABCDEFGHIJKLMNOPQRSTUVWXYZ'' ''abcdefghijklmnopqrstuvwxyz'') c of
        None \<Rightarrow> c
      | Some l \<Rightarrow> l)"

definition lower :: "string \<Rightarrow> string" where
  "lower s = map lower_char s"

subsection \<open>Methods called on values of unknown type\<close>

text \<open>\<open>d[k]\<close> on a dict with string keys.\<close>

definition getitem :: "dict \<Rightarrow> string \<Rightarrow> exn + pyval" where
  "getitem d k = (case map_of d k of None \<Rightarrow> Inl (KeyError k) | Some v \<Rightarrow> Inr v)"

text \<open>\<open>v.get(k, default)\<close>: only a dict has the method.\<close>

fun py_get :: "pyval \<Rightarrow> string \<Rightarrow> pyval \<Rightarrow> exn + pyval" where
  "py_get (PDict kvs) k d = Inr (case map_of kvs (PStr k) of None \<Rightarrow> d | Some v \<Rightarrow> v)"
| "py_get v k d = Inl (AttributeError (type_name v) ''get'')"

text \<open>\<open>v.split(c)[0]\<close> and \<open>v.lower()\<close>: only a str has the methods.\<close>

fun py_split_first :: "pyval \<Rightarrow> char \<Rightarrow> exn + string" where
  "py_split_first (PStr s) c = Inr (case split c s of [] \<Rightarrow> [] | p # ps \<Rightarrow> p)"
| "py_split_first v c = Inl (AttributeError (type_name v) ''split'')"

fun py_lower :: "pyval \<Rightarrow> exn + string" where
  "py_lower (PStr s) = Inr (lower s)"
| "py_lower v = Inl (AttributeError (type_name v) ''lower'')"

section \<open>Effects: outside calls and exceptions\<close>

text \<open>
  A computation returns its value or the exception it raised, together with the calls
  it sent to a control plane or a metrics endpoint, in order.
\<close>

datatype call =
    ListNode
  | ListNamespace
  | ListNamespacedPod string
  | CreateNamespacedDeployment pyval pyval
  | Get string "(string \<times> string) list"

type_synonym 'a io = "(exn + 'a) \<times> call list"

definition pure_io :: "'a \<Rightarrow> 'a io" where
  "pure_io x = (Inr x, [])"

definition lift :: "exn + 'a \<Rightarrow> 'a io" where
  "lift r = (r, [])"

definition send :: "call \<Rightarrow> exn + 'a \<Rightarrow> 'a io" where
  "send c r = (r, [c])"

text \<open>Sequencing: an exception skips the rest; the calls of both parts are kept.\<close>

definition then_do :: "'a io \<Rightarrow> ('a \<Rightarrow> 'b io) \<Rightarrow> 'b io" where
  "then_do m f =
     (case m of
        (Inl e, cs) \<Rightarrow> (Inl e, cs)
      | (Inr a, cs) \<Rightarrow> (case f a of (r, cs') \<Rightarrow> (r, cs @ cs')))"

text \<open>\<open>try: m except Exception as e: raise h(e)\<close>.\<close>

definition reraise :: "(exn \<Rightarrow> exn) \<Rightarrow> 'a io \<Rightarrow> 'a io" where
  "reraise h m = (case m of (Inl e, cs) \<Rightarrow> (Inl (h e), cs) | (Inr a, cs) \<Rightarrow> (Inr a, cs))"

text \<open>\<open>try: m except ApiException as e: raise Exception(prefix + str(e))\<close>.\<close>

fun wrap_api :: "string \<Rightarrow> exn \<Rightarrow> exn" where
  "wrap_api prefix (ApiException m) = Exception (prefix @ str (ApiException m))"
| "wrap_api prefix e = e"

section \<open>The outside world\<close>

text \<open>
  What the libraries and the remote systems answer during one request: the Kubernetes
  client, the YAML parser, the HTTP session to a Prometheus endpoint, the clock, and
  pydantic's validators for \<open>float\<close> and \<open>int\<close> fields and its rendering of a
  validation error.
\<close>

datatype api_client = ApiClient string

record V1Namespace =
  ns_name :: string

record V1Pod =
  pod_metadata_name :: string
  pod_status_phase :: "string option"
  pod_spec_containers :: "string list"

record response =
  resp_status :: int
  resp_text :: "exn + string"
  resp_json :: "exn + pyval"

record world =
  load_kube_config :: "string \<Rightarrow> exn + unit"
  list_node :: "api_client \<Rightarrow> exn + pyval list"
  list_namespace :: "api_client \<Rightarrow> exn + V1Namespace list"
  list_namespaced_pod :: "api_client \<Rightarrow> string \<Rightarrow> exn + V1Pod list"
  create_namespaced_deployment :: "api_client \<Rightarrow> pyval \<Rightarrow> pyval \<Rightarrow> exn + pyval"
  safe_load :: "string \<Rightarrow> exn + pyval"
  session_get :: "string \<Rightarrow> (string \<times> string) list \<Rightarrow> exn + response"
  now_isoformat :: string
  float_validate :: "pyval \<Rightarrow> pyfloat option"
  int_validate :: "pyval \<Rightarrow> int option"
  validation_error_str :: "string \<Rightarrow> dict \<Rightarrow> string"

section \<open>app/services/prometheus\_service.py\<close>

definition msg_prom :: string where
  "msg_prom =
     [CHR 0xD0, CHR 0x9E, CHR 0xD1, CHR 0x88, CHR 0xD0, CHR 0xB8, CHR 0xD0, CHR 0xB1,
      CHR 0xD0, CHR 0xBA, CHR 0xD0, CHR 0xB0, CHR 0x20, CHR 0xD0, CHR 0xB7, CHR 0xD0,
      CHR 0xB0, CHR 0xD0, CHR 0xBF, CHR 0xD1, CHR 0x80, CHR 0xD0, CHR 0xBE, CHR 0xD1,
      CHR 0x81, CHR 0xD0, CHR 0xB0, CHR 0x20, CHR 0xD0, CHR 0xBA, CHR 0x20]
     @ ''Prometheus: ''"

record PrometheusService =
  ps_prometheus_url :: string

definition PrometheusService_init :: "string \<Rightarrow> PrometheusService" where
  "PrometheusService_init prometheus_url =
     \<lparr>ps_prometheus_url = rstrip CHR ''/'' prometheus_url\<rparr>"

text \<open>\<open>if time_range:\<close> holds for a non-empty string only.\<close>

definition query :: "world \<Rightarrow> PrometheusService \<Rightarrow> string \<Rightarrow> string option \<Rightarrow> pyval io" where
  "query w self q time_range =
     (let params = [(''query'', q)] @
            (case time_range of
               None \<Rightarrow> []
             | Some t \<Rightarrow> if t = [] then [] else [(''time'', t)]);
          url = ps_prometheus_url self @ ''/api/v1/query''
      in send (Get url params)
           (case session_get w url params of
              Inl e \<Rightarrow> Inl e
            | Inr response \<Rightarrow>
                if resp_status response \<noteq> 200 then
                  (case resp_text response of
                     Inl e \<Rightarrow> Inl e
                   | Inr body \<Rightarrow> Inl (Exception (msg_prom @ body)))
                else resp_json response))"

definition cpu_usage_query :: "string \<Rightarrow> string" where
  \<open>cpu_usage_query cluster_name =
     ''sum(rate(container_cpu_usage_seconds_total{cluster="'' @ cluster_name @ ''"}[5m]))''\<close>

definition memory_usage_query :: "string \<Rightarrow> string" where
  \<open>memory_usage_query cluster_name =
     ''sum(container_memory_usage_bytes{cluster="'' @ cluster_name @ ''"})''\<close>

definition pod_count_query :: "string \<Rightarrow> string" where
  \<open>pod_count_query cluster_name =
     ''count(kube_pod_info{cluster="'' @ cluster_name @ ''"})''\<close>

definition node_count_query :: "string \<Rightarrow> string" where
  \<open>node_count_query cluster_name =
     ''count(kube_node_info{cluster="'' @ cluster_name @ ''"})''\<close>

text \<open>
  The four queries are awaited one after the other while the dict literal is built;
  \<open>now\<close> is read before the first. (\<open>hour_ago\<close> is computed and never used.)
\<close>

definition PrometheusService_get_cluster_metrics ::
  "world \<Rightarrow> PrometheusService \<Rightarrow> string \<Rightarrow> dict io" where
  "PrometheusService_get_cluster_metrics w self cluster_name =
     (let now = now_isoformat w in
      then_do (query w self (cpu_usage_query cluster_name) None) (\<lambda>cpu_usage.
      then_do (query w self (memory_usage_query cluster_name) None) (\<lambda>memory_usage.
      then_do (query w self (pod_count_query cluster_name) None) (\<lambda>pod_count.
      then_do (query w self (node_count_query cluster_name) None) (\<lambda>node_count.
      pure_io
        [(''timestamp'', PStr now),
         (''metrics'', PDict
            [(PStr ''cpu_usage'', cpu_usage),
             (PStr ''memory_usage'', memory_usage),
             (PStr ''pod_count'', pod_count),
             (PStr ''node_count'', node_count)])])))))"

definition pod_selector :: "string \<Rightarrow> string \<Rightarrow> string \<Rightarrow> string" where
  \<open>pod_selector cluster_name namespace pod_name =
     ''{cluster="'' @ cluster_name @ ''", namespace="'' @ namespace
       @ ''", pod="'' @ pod_name @ ''"}''\<close>

definition pod_cpu_query :: "string \<Rightarrow> string \<Rightarrow> string \<Rightarrow> string" where
  "pod_cpu_query cluster_name namespace pod_name =
     ''rate(container_cpu_usage_seconds_total''
       @ pod_selector cluster_name namespace pod_name @ ''[5m])''"

definition pod_memory_query :: "string \<Rightarrow> string \<Rightarrow> string \<Rightarrow> string" where
  "pod_memory_query cluster_name namespace pod_name =
     ''container_memory_usage_bytes'' @ pod_selector cluster_name namespace pod_name"

definition pod_network_query :: "string \<Rightarrow> string \<Rightarrow> string \<Rightarrow> string" where
  "pod_network_query cluster_name namespace pod_name =
     ''rate(container_network_receive_bytes_total''
       @ pod_selector cluster_name namespace pod_name @ ''[5m])''"

text \<open>Here the clock is read after the three queries.\<close>

definition get_pod_metrics ::
  "world \<Rightarrow> PrometheusService \<Rightarrow> string \<Rightarrow> string \<Rightarrow> string \<Rightarrow> dict io" where
  "get_pod_metrics w self cluster_name namespace pod_name =
     then_do (query w self (pod_cpu_query cluster_name namespace pod_name) None) (\<lambda>cpu.
     then_do (query w self (pod_memory_query cluster_name namespace pod_name) None) (\<lambda>memory.
     then_do (query w self (pod_network_query cluster_name namespace pod_name) None) (\<lambda>network.
     pure_io
       [(''timestamp'', PStr (now_isoformat w)),
        (''metrics'', PDict
           [(PStr ''cpu'', cpu),
            (PStr ''memory'', memory),
            (PStr ''network'', network)])])))"

section \<open>app/services/kubernetes\_service.py\<close>

definition msg_init :: string where
  "msg_init =
     [CHR 0xD0, CHR 0x9E, CHR 0xD1, CHR 0x88, CHR 0xD0, CHR 0xB8, CHR 0xD0, CHR 0xB1,
      CHR 0xD0, CHR 0xBA, CHR 0xD0, CHR 0xB0, CHR 0x20, CHR 0xD0, CHR 0xB8, CHR 0xD0,
      CHR 0xBD, CHR 0xD0, CHR 0xB8, CHR 0xD1, CHR 0x86, CHR 0xD0, CHR 0xB8, CHR 0xD0,
      CHR 0xB0, CHR 0xD0, CHR 0xBB, CHR 0xD0, CHR 0xB8, CHR 0xD0, CHR 0xB7, CHR 0xD0,
      CHR 0xB0, CHR 0xD1, CHR 0x86, CHR 0xD0, CHR 0xB8, CHR 0xD0, CHR 0xB8, CHR 0x20,
      CHR 0x4B, CHR 0x75, CHR 0x62, CHR 0x65, CHR 0x72, CHR 0x6E, CHR 0x65, CHR 0x74,
      CHR 0x65, CHR 0x73, CHR 0x20, CHR 0xD0, CHR 0xBA, CHR 0xD0, CHR 0xBB, CHR 0xD0,
      CHR 0xB8, CHR 0xD0, CHR 0xB5, CHR 0xD0, CHR 0xBD, CHR 0xD1, CHR 0x82, CHR 0xD0,
      CHR 0xB0, CHR 0x3A, CHR 0x20]"

definition msg_info :: string where
  "msg_info =
     [CHR 0xD0, CHR 0x9E, CHR 0xD1, CHR 0x88, CHR 0xD0, CHR 0xB8, CHR 0xD0, CHR 0xB1,
      CHR 0xD0, CHR 0xBA, CHR 0xD0, CHR 0xB0, CHR 0x20, CHR 0xD0, CHR 0xBF, CHR 0xD0,
      CHR 0xBE, CHR 0xD0, CHR 0xBB, CHR 0xD1, CHR 0x83, CHR 0xD1, CHR 0x87, CHR 0xD0,
      CHR 0xB5, CHR 0xD0, CHR 0xBD, CHR 0xD0, CHR 0xB8, CHR 0xD1, CHR 0x8F, CHR 0x20,
      CHR 0xD0, CHR 0xB8, CHR 0xD0, CHR 0xBD, CHR 0xD1, CHR 0x84, CHR 0xD0, CHR 0xBE,
      CHR 0xD1, CHR 0x80, CHR 0xD0, CHR 0xBC, CHR 0xD0, CHR 0xB0, CHR 0xD1, CHR 0x86,
      CHR 0xD0, CHR 0xB8, CHR 0xD0, CHR 0xB8, CHR 0x20, CHR 0xD0, CHR 0xBE, CHR 0x20,
      CHR 0xD0, CHR 0xBA, CHR 0xD0, CHR 0xBB, CHR 0xD0, CHR 0xB0, CHR 0xD1, CHR 0x81,
      CHR 0xD1, CHR 0x82, CHR 0xD0, CHR 0xB5, CHR 0xD1, CHR 0x80, CHR 0xD0, CHR 0xB5,
      CHR 0x3A, CHR 0x20]"

definition msg_pods :: string where
  "msg_pods =
     [CHR 0xD0, CHR 0x9E, CHR 0xD1, CHR 0x88, CHR 0xD0, CHR 0xB8, CHR 0xD0, CHR 0xB1,
      CHR 0xD0, CHR 0xBA, CHR 0xD0, CHR 0xB0, CHR 0x20, CHR 0xD0, CHR 0xBF, CHR 0xD0,
      CHR 0xBE, CHR 0xD0, CHR 0xBB, CHR 0xD1, CHR 0x83, CHR 0xD1, CHR 0x87, CHR 0xD0,
      CHR 0xB5, CHR 0xD0, CHR 0xBD, CHR 0xD0, CHR 0xB8, CHR 0xD1, CHR 0x8F, CHR 0x20,
      CHR 0xD1, CHR 0x81, CHR 0xD0, CHR 0xBF, CHR 0xD0, CHR 0xB8, CHR 0xD1, CHR 0x81,
      CHR 0xD0, CHR 0xBA, CHR 0xD0, CHR 0xB0, CHR 0x20, CHR 0xD0, CHR 0xBF, CHR 0xD0,
      CHR 0xBE, CHR 0xD0, CHR 0xB4, CHR 0xD0, CHR 0xBE, CHR 0xD0, CHR 0xB2, CHR 0x3A,
      CHR 0x20]"

definition msg_manifest :: string where
  "msg_manifest =
     [CHR 0xD0, CHR 0x9E, CHR 0xD1, CHR 0x88, CHR 0xD0, CHR 0xB8, CHR 0xD0, CHR 0xB1,
      CHR 0xD0, CHR 0xBA, CHR 0xD0, CHR 0xB0, CHR 0x20, CHR 0xD0, CHR 0xBF, CHR 0xD1,
      CHR 0x80, CHR 0xD0, CHR 0xB8, CHR 0xD0, CHR 0xBC, CHR 0xD0, CHR 0xB5, CHR 0xD0,
      CHR 0xBD, CHR 0xD0, CHR 0xB5, CHR 0xD0, CHR 0xBD, CHR 0xD0, CHR 0xB8, CHR 0xD1,
      CHR 0x8F, CHR 0x20, CHR 0xD0, CHR 0xBC, CHR 0xD0, CHR 0xB0, CHR 0xD0, CHR 0xBD,
      CHR 0xD0, CHR 0xB8, CHR 0xD1, CHR 0x84, CHR 0xD0, CHR 0xB5, CHR 0xD1, CHR 0x81,
      CHR 0xD1, CHR 0x82, CHR 0xD0, CHR 0xB0, CHR 0x3A, CHR 0x20]"

record KubernetesService =
  ks_kubeconfig :: string
  ks_api_client :: api_client

text \<open>
  \<open>_get_api_client\<close>: loading the configuration file is wrapped in
  \<open>except Exception\<close>. Reading the file is no call to a control plane.
\<close>

definition get_api_client :: "world \<Rightarrow> string \<Rightarrow> api_client io" where
  "get_api_client w kubeconfig =
     reraise (\<lambda>e. Exception (msg_init @ str e))
       (then_do (lift (load_kube_config w kubeconfig)) (\<lambda>u.
        pure_io (ApiClient kubeconfig)))"

definition KubernetesService_init :: "world \<Rightarrow> string \<Rightarrow> KubernetesService io" where
  "KubernetesService_init w kubeconfig =
     then_do (get_api_client w kubeconfig) (\<lambda>api_client.
     pure_io \<lparr>ks_kubeconfig = kubeconfig, ks_api_client = api_client\<rparr>)"

text \<open>The keys of the returned dict are \<open>node_count\<close> and \<open>namespaces\<close>.\<close>

definition get_cluster_info :: "world \<Rightarrow> KubernetesService \<Rightarrow> dict io" where
  "get_cluster_info w self =
     reraise (wrap_api msg_info)
       (then_do (send ListNode (list_node w (ks_api_client self))) (\<lambda>nodes.
        then_do (send ListNamespace (list_namespace w (ks_api_client self))) (\<lambda>namespaces.
        pure_io
          [(''node_count'', PInt (int (length nodes))),
           (''namespaces'', PList (map (\<lambda>ns. PStr (ns_name ns)) namespaces))])))"

definition get_pods :: "world \<Rightarrow> KubernetesService \<Rightarrow> string \<Rightarrow> pyval list io" where
  "get_pods w self namespace =
     reraise (wrap_api msg_pods)
       (then_do (send (ListNamespacedPod namespace)
                   (list_namespaced_pod w (ks_api_client self) namespace)) (\<lambda>pods.
        pure_io
          (map (\<lambda>pod. PDict
                  [(PStr ''name'', PStr (pod_metadata_name pod)),
                   (PStr ''status'',
                      (case pod_status_phase pod of None \<Rightarrow> PNone | Some phase \<Rightarrow> PStr phase)),
                   (PStr ''containers'', PList (map PStr (pod_spec_containers pod)))])
             pods)))"

text \<open>
  \<open>apply_manifest\<close> returns the result of the create call, or \<open>None\<close> when it falls
  through the \<open>if\<close>. Every exception of the body, the create call's included, is
  raised again as an \<open>Exception\<close>. \<open>api_version\<close> is computed and not used.
\<close>

definition apply_manifest :: "world \<Rightarrow> KubernetesService \<Rightarrow> string \<Rightarrow> pyval option io" where
  "apply_manifest w self manifest =
     reraise (\<lambda>e. Exception (msg_manifest @ str e))
       (then_do (lift (safe_load w manifest)) (\<lambda>manifest_dict.
        then_do (lift (py_get manifest_dict ''apiVersion'' (PStr ''''))) (\<lambda>v.
        then_do (lift (py_split_first v CHR ''/'')) (\<lambda>api_version.
        then_do (lift (py_get manifest_dict ''kind'' (PStr ''''))) (\<lambda>k.
        then_do (lift (py_lower k)) (\<lambda>kind.
        if kind = ''deployment'' then
          then_do (lift (py_get manifest_dict ''metadata'' (PDict []))) (\<lambda>metadata.
          then_do (lift (py_get metadata ''namespace'' (PStr ''default''))) (\<lambda>namespace.
          then_do (send (CreateNamespacedDeployment manifest_dict namespace)
                     (create_namespaced_deployment w (ks_api_client self)
                        manifest_dict namespace)) (\<lambda>result.
          pure_io (Some result))))
        else pure_io None))))))"

section \<open>app/models/cluster.py\<close>

record ClusterBase =
  name :: string
  description :: "string option"
  kubeconfig :: string
  prometheus_url :: "string option"

type_synonym ClusterCreate = ClusterBase

record Cluster = ClusterBase +
  id' :: string
  status :: string
  nodes :: "pyval list"
  namespaces :: "string list"

record ClusterMetrics =
  cpu_usage :: pyfloat
  memory_usage :: pyfloat
  pod_count :: int
  node_count :: int
  timestamp :: string

subsection \<open>Validation of keyword arguments\<close>

text \<open>
  A model is built from keyword arguments: a required field must be present, every
  present field must fit its declared type, unknown arguments are ignored, and any
  failure raises one \<open>ValidationError\<close>. A \<open>str\<close> field takes a str, \<open>Optional[str]\<close>
  also \<open>None\<close> or nothing, \<open>List[Dict]\<close> a list of dicts, \<open>List[str]\<close> a list of strs.
\<close>

fun as_str :: "pyval \<Rightarrow> string option" where
  "as_str (PStr s) = Some s"
| "as_str v = None"

fun as_optional_str :: "pyval \<Rightarrow> string option option" where
  "as_optional_str PNone = Some None"
| "as_optional_str (PStr s) = Some (Some s)"
| "as_optional_str v = None"

fun as_dict :: "pyval \<Rightarrow> pyval option" where
  "as_dict (PDict kvs) = Some (PDict kvs)"
| "as_dict v = None"

fun as_list :: "(pyval \<Rightarrow> 'a option) \<Rightarrow> pyval \<Rightarrow> 'a list option" where
  "as_list f (PList xs) = those (map f xs)"
| "as_list f v = None"

definition required :: "dict \<Rightarrow> string \<Rightarrow> (pyval \<Rightarrow> 'a option) \<Rightarrow> 'a option" where
  "required kw k f = Option.bind (map_of kw k) f"

definition optional :: "dict \<Rightarrow> string \<Rightarrow> (pyval \<Rightarrow> 'a option option) \<Rightarrow> 'a option option" where
  "optional kw k f = (case map_of kw k of None \<Rightarrow> Some None | Some v \<Rightarrow> f v)"

definition Cluster_init :: "world \<Rightarrow> dict \<Rightarrow> exn + Cluster" where
  "Cluster_init w kw =
     (case
        Option.bind (required kw ''name'' as_str) (\<lambda>a.
        Option.bind (optional kw ''description'' as_optional_str) (\<lambda>b.
        Option.bind (required kw ''kubeconfig'' as_str) (\<lambda>c.
        Option.bind (optional kw ''prometheus_url'' as_optional_str) (\<lambda>d.
        Option.bind (required kw ''id'' as_str) (\<lambda>e.
        Option.bind (required kw ''status'' as_str) (\<lambda>f.
        Option.bind (required kw ''nodes'' (as_list as_dict)) (\<lambda>g.
        Option.bind (required kw ''namespaces'' (as_list as_str)) (\<lambda>h.
        Some \<lparr>name = a, description = b, kubeconfig = c, prometheus_url = d,
              id' = e, status = f, nodes = g, namespaces = h\<rparr>))))))))
      of
        None \<Rightarrow> Inl (ValidationError (validation_error_str w ''Cluster'' kw))
      | Some cluster \<Rightarrow> Inr cluster)"

definition ClusterMetrics_init :: "world \<Rightarrow> dict \<Rightarrow> exn + ClusterMetrics" where
  "ClusterMetrics_init w kw =
     (case
        Option.bind (required kw ''cpu_usage'' (float_validate w)) (\<lambda>a.
        Option.bind (required kw ''memory_usage'' (float_validate w)) (\<lambda>b.
        Option.bind (required kw ''pod_count'' (int_validate w)) (\<lambda>c.
        Option.bind (required kw ''node_count'' (int_validate w)) (\<lambda>d.
        Option.bind (required kw ''timestamp'' as_str) (\<lambda>e.
        Some \<lparr>cpu_usage = a, memory_usage = b, pod_count = c, node_count = d,
              timestamp = e\<rparr>)))))
      of
        None \<Rightarrow> Inl (ValidationError (validation_error_str w ''ClusterMetrics'' kw))
      | Some metrics \<Rightarrow> Inr metrics)"

text \<open>
  The serialized form of a \<open>Cluster\<close> under \<open>response_model\<close>: every declared field,
  the inherited ones first. No field of the model is declared excluded.
\<close>

definition optional_str :: "string option \<Rightarrow> pyval" where
  "optional_str v = (case v of None \<Rightarrow> PNone | Some s \<Rightarrow> PStr s)"

definition Cluster_dump :: "Cluster \<Rightarrow> dict" where
  "Cluster_dump c =
     [(''name'', PStr (name c)),
      (''description'', optional_str (description c)),
      (''kubeconfig'', PStr (kubeconfig c)),
      (''prometheus_url'', optional_str (prometheus_url c)),
      (''id'', PStr (id' c)),
      (''status'', PStr (status c)),
      (''nodes'', PList (nodes c)),
      (''namespaces'', PList (map PStr (namespaces c)))]"

section \<open>app/api/routes.py\<close>

definition msg_not_found :: string where
  "msg_not_found =
     [CHR 0xD0, CHR 0x9A, CHR 0xD0, CHR 0xBB, CHR 0xD0, CHR 0xB0, CHR 0xD1, CHR 0x81,
      CHR 0xD1, CHR 0x82, CHR 0xD0, CHR 0xB5, CHR 0xD1, CHR 0x80, CHR 0x20, CHR 0xD0,
      CHR 0xBD, CHR 0xD0, CHR 0xB5, CHR 0x20, CHR 0xD0, CHR 0xBD, CHR 0xD0, CHR 0xB0,
      CHR 0xD0, CHR 0xB9, CHR 0xD0, CHR 0xB4, CHR 0xD0, CHR 0xB5, CHR 0xD0, CHR 0xBD]"

definition msg_no_prometheus :: string where
  "msg_no_prometheus =
     [CHR 0x50, CHR 0x72, CHR 0x6F, CHR 0x6D, CHR 0x65, CHR 0x74, CHR 0x68, CHR 0x65,
      CHR 0x75, CHR 0x73, CHR 0x20, CHR 0x55, CHR 0x52, CHR 0x4C, CHR 0x20, CHR 0xD0,
      CHR 0xBD, CHR 0xD0, CHR 0xB5, CHR 0x20, CHR 0xD0, CHR 0xBD, CHR 0xD0, CHR 0xB0,
      CHR 0xD1, CHR 0x81, CHR 0xD1, CHR 0x82, CHR 0xD1, CHR 0x80, CHR 0xD0, CHR 0xBE,
      CHR 0xD0, CHR 0xB5, CHR 0xD0, CHR 0xBD, CHR 0x20, CHR 0xD0, CHR 0xB4, CHR 0xD0,
      CHR 0xBB, CHR 0xD1, CHR 0x8F, CHR 0x20, CHR 0xD1, CHR 0x8D, CHR 0xD1, CHR 0x82,
      CHR 0xD0, CHR 0xBE, CHR 0xD0, CHR 0xB3, CHR 0xD0, CHR 0xBE, CHR 0x20, CHR 0xD0,
      CHR 0xBA, CHR 0xD0, CHR 0xBB, CHR 0xD0, CHR 0xB0, CHR 0xD1, CHR 0x81, CHR 0xD1,
      CHR 0x82, CHR 0xD0, CHR 0xB5, CHR 0xD1, CHR 0x80, CHR 0xD0, CHR 0xB0]"

text \<open>
  \<open>settings.CLUSTERS\<close> is the registry: it starts as the empty list (config.py) and
  holds the \<open>Cluster\<close> objects that \<open>create_cluster\<close> appends. Every handler takes
  it as an argument, and \<open>create_cluster\<close> returns the list it leaves behind.

  A handler answers with a value or with the \<open>HTTPException\<close> it raises.
\<close>

datatype HTTPException = HTTPException (status_code: nat) (detail: string)

type_synonym 'a reply = "(HTTPException + 'a) \<times> call list"

text \<open>\<open>try: m except Exception as e: raise HTTPException(status_code=n, detail=str(e))\<close>.\<close>

definition except_http :: "nat \<Rightarrow> 'a io \<Rightarrow> 'a reply" where
  "except_http n m =
     (case m of
        (Inl e, cs) \<Rightarrow> (Inl (HTTPException n (str e)), cs)
      | (Inr a, cs) \<Rightarrow> (Inr a, cs))"

definition get_clusters :: "Cluster list \<Rightarrow> Cluster list" where
  "get_clusters CLUSTERS = CLUSTERS"

text \<open>The body of the answer to \<open>GET /clusters\<close>, under \<open>response_model=List[Cluster]\<close>.\<close>

definition get_clusters_response :: "Cluster list \<Rightarrow> dict list" where
  "get_clusters_response CLUSTERS = map Cluster_dump (get_clusters CLUSTERS)"

text \<open>
  The first two statements of \<open>create_cluster\<close>, the connectivity probe: the service
  is built from the request's \<open>kubeconfig\<close> and asked for the cluster's information.
\<close>

definition probe :: "world \<Rightarrow> ClusterCreate \<Rightarrow> dict io" where
  "probe w cluster =
     then_do (KubernetesService_init w (kubeconfig cluster)) (\<lambda>k8s_service.
     get_cluster_info w k8s_service)"

text \<open>
  \<open>create_cluster\<close>: the whole body is inside the \<open>try\<close>. The keyword arguments of
  \<open>Cluster(...)\<close> are evaluated in the order written, so \<open>cluster_info["nodes"]\<close> is
  read before \<open>cluster_info["namespaces"]\<close> and before the model is validated. The
  append is the last statement that can be reached before \<open>return\<close>.
\<close>

definition create_cluster ::
  "world \<Rightarrow> ClusterCreate \<Rightarrow> Cluster list \<Rightarrow> Cluster reply \<times> Cluster list" where
  "create_cluster w cluster CLUSTERS =
     (case
        except_http 400
          (then_do (KubernetesService_init w (kubeconfig cluster)) (\<lambda>k8s_service.
           then_do (get_cluster_info w k8s_service) (\<lambda>cluster_info.
           then_do (lift (getitem cluster_info ''nodes'')) (\<lambda>nodes_value.
           then_do (lift (getitem cluster_info ''namespaces'')) (\<lambda>namespaces_value.
           lift (Cluster_init w
             [(''id'', PStr (str_nat (length CLUSTERS + 1))),
              (''name'', PStr (name cluster)),
              (''description'', optional_str (description cluster)),
              (''kubeconfig'', PStr (kubeconfig cluster)),
              (''prometheus_url'', optional_str (prometheus_url cluster)),
              (''status'', PStr ''active''),
              (''nodes'', nodes_value),
              (''namespaces'', namespaces_value)]))))))
      of
        (Inl e, calls) \<Rightarrow> ((Inl e, calls), CLUSTERS)
      | (Inr new_cluster, calls) \<Rightarrow> ((Inr new_cluster, calls), CLUSTERS @ [new_cluster]))"

text \<open>
  \<open>next((c for c in settings.CLUSTERS if c.id == cluster_id), None)\<close> is \<open>find\<close>.
  \<open>if not cluster.prometheus_url\<close> holds for \<open>None\<close> and for the empty string.
\<close>

definition get_cluster_metrics ::
  "world \<Rightarrow> string \<Rightarrow> Cluster list \<Rightarrow> ClusterMetrics reply" where
  "get_cluster_metrics w cluster_id CLUSTERS =
     (case find (\<lambda>c. id' c = cluster_id) CLUSTERS of
        None \<Rightarrow> (Inl (HTTPException 404 msg_not_found), [])
      | Some cluster \<Rightarrow>
          (case prometheus_url cluster of
             None \<Rightarrow> (Inl (HTTPException 400 msg_no_prometheus), [])
           | Some url \<Rightarrow>
               if url = [] then (Inl (HTTPException 400 msg_no_prometheus), [])
               else
                 except_http 500
                   (let prometheus_service = PrometheusService_init url in
                    then_do (PrometheusService_get_cluster_metrics w prometheus_service
                               (name cluster)) (\<lambda>metrics.
                    lift (ClusterMetrics_init w metrics)))))"

definition get_cluster_pods ::
  "world \<Rightarrow> string \<Rightarrow> string \<Rightarrow> Cluster list \<Rightarrow> pyval list reply" where
  "get_cluster_pods w cluster_id namespace CLUSTERS =
     (case find (\<lambda>c. id' c = cluster_id) CLUSTERS of
        None \<Rightarrow> (Inl (HTTPException 404 msg_not_found), [])
      | Some cluster \<Rightarrow>
          except_http 500
            (then_do (KubernetesService_init w (kubeconfig cluster)) (\<lambda>k8s_service.
             get_pods w k8s_service namespace)))"

text \<open>
  A run of \<open>POST /clusters\<close> requests, one after the other, each in its own world:
  the replies in order and the registry left at the end.
\<close>

fun registrations ::
  "(world \<times> ClusterCreate) list \<Rightarrow> Cluster list \<Rightarrow> Cluster reply list \<times> Cluster list" where
  "registrations [] CLUSTERS = ([], CLUSTERS)"
| "registrations ((w, cluster) # rest) CLUSTERS =
     (case create_cluster w cluster CLUSTERS of
        (reply, CLUSTERS') \<Rightarrow>
          (case registrations rest CLUSTERS' of
             (replies, CLUSTERS'') \<Rightarrow> (reply # replies, CLUSTERS'')))"

text \<open>The records handed back by the registrations that succeeded.\<close>

fun registered :: "Cluster reply list \<Rightarrow> Cluster list" where
  "registered [] = []"
| "registered ((Inl e, calls) # replies) = registered replies"
| "registered ((Inr c, calls) # replies) = c # registered replies"

section \<open>Concrete worlds and requests\<close>

text \<open>
  Four manifests, in YAML flow style, with the documents they parse to: a deployment
  with a namespace, a deployment without metadata whose kind is in capitals, a
  service, and a document whose kind is a number.
\<close>

definition deployment_text :: string where
  "deployment_text =
     ''{apiVersion: apps/v1, kind: Deployment, metadata: {name: web, namespace: staging}}''"

definition deployment_doc :: pyval where
  "deployment_doc =
     PDict [(PStr ''apiVersion'', PStr ''apps/v1''),
            (PStr ''kind'', PStr ''Deployment''),
            (PStr ''metadata'',
               PDict [(PStr ''name'', PStr ''web''), (PStr ''namespace'', PStr ''staging'')])]"

definition bare_deployment_text :: string where
  "bare_deployment_text = ''{apiVersion: apps/v1, kind: DEPLOYMENT}''"

definition bare_deployment_doc :: pyval where
  "bare_deployment_doc =
     PDict [(PStr ''apiVersion'', PStr ''apps/v1''), (PStr ''kind'', PStr ''DEPLOYMENT'')]"

definition service_text :: string where
  "service_text = ''{apiVersion: v1, kind: Service, metadata: {name: web}}''"

definition service_doc :: pyval where
  "service_doc =
     PDict [(PStr ''apiVersion'', PStr ''v1''),
            (PStr ''kind'', PStr ''Service''),
            (PStr ''metadata'', PDict [(PStr ''name'', PStr ''web'')])]"

definition numeric_kind_text :: string where
  "numeric_kind_text = ''{apiVersion: v1, kind: 5}''"

definition numeric_kind_doc :: pyval where
  "numeric_kind_doc = PDict [(PStr ''apiVersion'', PStr ''v1''), (PStr ''kind'', PInt 5)]"

text \<open>
  A world in which everything answers: the cluster has three nodes and the namespaces
  \<open>default\<close> and \<open>kube-system\<close>, the create call answers with the body it was given,
  and every Prometheus query is answered with status 200.
\<close>

definition world_up :: world where
  "world_up =
     \<lparr>load_kube_config = (\<lambda>config_file. Inr ()),
      list_node = (\<lambda>api. Inr [PDict [], PDict [], PDict []]),
      list_namespace =
        (\<lambda>api. Inr [\<lparr>ns_name = ''default''\<rparr>, \<lparr>ns_name = ''kube-system''\<rparr>]),
      list_namespaced_pod =
        (\<lambda>api ns. Inr [\<lparr>pod_metadata_name = ''web-0'', pod_status_phase = Some ''Running'',
                           pod_spec_containers = [''nginx'']\<rparr>]),
      create_namespaced_deployment = (\<lambda>api body ns. Inr body),
      safe_load =
        (\<lambda>s. if s = deployment_text then Inr deployment_doc
             else if s = bare_deployment_text then Inr bare_deployment_doc
             else if s = service_text then Inr service_doc
             else if s = numeric_kind_text then Inr numeric_kind_doc
             else Inl (OtherError ''could not parse'')),
      session_get =
        (\<lambda>url params.
           Inr \<lparr>resp_status = 200, resp_text = Inr ''{}'',
                resp_json = Inr (PDict [(PStr ''status'', PStr ''success'')])\<rparr>),
      now_isoformat = ''2024-01-01T00:00:00'',
      float_validate = (\<lambda>v. case v of PFloat f \<Rightarrow> Some f | _ \<Rightarrow> None),
      int_validate = (\<lambda>v. case v of PInt i \<Rightarrow> Some i | _ \<Rightarrow> None),
      validation_error_str = (\<lambda>model kw. ''validation error for '' @ model)\<rparr>"

text \<open>
  Two documents whose kind is \<open>Deployment\<close> and that are not well formed: in one the
  \<open>apiVersion\<close> is a number, in the other the metadata is null. A world that parses
  them, and is \<open>world_up\<close> otherwise.
\<close>

definition numeric_version_text :: string where
  "numeric_version_text = ''{apiVersion: 1, kind: Deployment}''"

definition numeric_version_doc :: pyval where
  "numeric_version_doc =
     PDict [(PStr ''apiVersion'', PInt 1), (PStr ''kind'', PStr ''Deployment'')]"

definition null_metadata_text :: string where
  "null_metadata_text = ''{kind: Deployment, metadata: null}''"

definition null_metadata_doc :: pyval where
  "null_metadata_doc =
     PDict [(PStr ''kind'', PStr ''Deployment''), (PStr ''metadata'', PNone)]"

definition world_malformed :: world where
  "world_malformed =
     world_up\<lparr>safe_load :=
       (\<lambda>s. if s = numeric_version_text then Inr numeric_version_doc
            else if s = null_metadata_text then Inr null_metadata_doc
            else Inl (OtherError ''could not parse''))\<rparr>"

text \<open>A world in which the configuration file cannot be loaded.\<close>

definition world_down :: world where
  "world_down =
     world_up\<lparr>load_kube_config := (\<lambda>config_file. Inl (OtherError ''Invalid kube-config file''))\<rparr>"

text \<open>
  A world in which Prometheus answers every query but two with status 200: the pod
  count of cluster \<open>prod\<close> and the network rate of its pod \<open>web-0\<close> get status 503.
\<close>

definition world_partial :: world where
  "world_partial =
     world_up\<lparr>session_get :=
       (\<lambda>url params.
          if map_of params ''query'' = Some (pod_count_query ''prod'')
           \<or> map_of params ''query'' = Some (pod_network_query ''prod'' ''default'' ''web-0'')
          then Inr \<lparr>resp_status = 503, resp_text = Inr ''Service Unavailable'',
                    resp_json = Inl (OtherError ''not JSON'')\<rparr>
          else Inr \<lparr>resp_status = 200, resp_text = Inr ''{}'',
                    resp_json = Inr (PDict [(PStr ''status'', PStr ''success'')])\<rparr>)\<rparr>"

definition prod :: ClusterCreate where
  "prod =
     \<lparr>name = ''prod'', description = None, kubeconfig = ''/etc/kube/prod.yaml'',
      prometheus_url = Some ''http://prometheus:9090/''\<rparr>"

text \<open>Three records as a registry could hold them; they differ in \<open>prometheus_url\<close>.\<close>

definition cluster_a :: Cluster where
  "cluster_a =
     \<lparr>name = ''prod'', description = None, kubeconfig = ''/etc/kube/prod.yaml'',
      prometheus_url = Some ''http://prometheus:9090/'',
      id' = ''1'', status = ''active'', nodes = [], namespaces = [''default'', ''kube-system'']\<rparr>"

definition cluster_b :: Cluster where
  "cluster_b = cluster_a\<lparr>name := ''staging'', prometheus_url := None, id' := ''2''\<rparr>"

definition cluster_c :: Cluster where
  "cluster_c = cluster_a\<lparr>name := ''dev'', prometheus_url := Some '''', id' := ''3''\<rparr>"

definition svc :: KubernetesService where
  "svc = \<lparr>ks_kubeconfig = ''/etc/kube/prod.yaml'', ks_api_client = ApiClient ''/etc/kube/prod.yaml''\<rparr>"

definition prom :: PrometheusService where
  "prom = PrometheusService_init ''http://prometheus:9090/''"

section \<open>Sequencing and the registry\<close>

lemmas io_defs = then_do_def reraise_def lift_def pure_io_def send_def except_http_def

lemmas k8s_defs = KubernetesService_init_def get_api_client_def get_cluster_info_def getitem_def

text \<open>What \<open>create_cluster\<close> leaves in the registry is the old registry, followed by the
  record it returned if it returned one.\<close>

lemma create_cluster_registry:
  "snd (create_cluster w cluster CLUSTERS) =
     CLUSTERS @ registered [fst (create_cluster w cluster CLUSTERS)]"
  by (simp add: create_cluster_def split: prod.splits sum.splits)

lemma registrations_registry:
  "registrations reqs cs0 = (replies, cs) \<Longrightarrow> cs = cs0 @ registered replies"
proof (induction reqs arbitrary: cs0 replies cs)
  case Nil
  then show ?case by simp
next
  case (Cons a reqs)
  obtain w cluster where a: "a = (w, cluster)" by (cases a)
  obtain reply cs1 where r: "create_cluster w cluster cs0 = (reply, cs1)"
    by (cases "create_cluster w cluster cs0")
  obtain replies' cs2 where rs: "registrations reqs cs1 = (replies', cs2)"
    by (cases "registrations reqs cs1")
  from Cons.prems a r rs have eq: "replies = reply # replies'" "cs = cs2" by auto
  from Cons.IH[OF rs] have "cs2 = cs1 @ registered replies'" .
  moreover from create_cluster_registry[of w cluster cs0] r
  have "cs1 = cs0 @ registered [reply]" by simp
  ultimately show ?case using eq by (cases reply; cases "fst reply") auto
qed

lemma find_None_id:
  "cluster_id \<notin> id' ` set cs \<Longrightarrow> find (\<lambda>c. id' c = cluster_id) cs = None"
  by (induction cs) auto

text \<open>The dict of \<open>get_cluster_info\<close> has no key \<open>nodes\<close>, in any world.\<close>

lemma get_cluster_info_keys:
  "fst (get_cluster_info w self) = Inr d \<Longrightarrow> map fst d = [''node_count'', ''namespaces'']"
  by (auto simp: get_cluster_info_def io_defs split: sum.splits prod.splits)




text \<open>The dict of the metrics service lacks four required fields of \<open>ClusterMetrics\<close>,
  so the metrics handler returns no snapshot, in any world.\<close>

lemma metrics_dict_keys:
  assumes "fst (PrometheusService_get_cluster_metrics w self n) = Inr d"
  shows "map fst d = [''timestamp'', ''metrics'']"
proof -
  obtain r1 c1 where q1: "query w self (cpu_usage_query n) None = (r1, c1)"
    by (cases "query w self (cpu_usage_query n) None")
  obtain r2 c2 where q2: "query w self (memory_usage_query n) None = (r2, c2)"
    by (cases "query w self (memory_usage_query n) None")
  obtain r3 c3 where q3: "query w self (pod_count_query n) None = (r3, c3)"
    by (cases "query w self (pod_count_query n) None")
  obtain r4 c4 where q4: "query w self (node_count_query n) None = (r4, c4)"
    by (cases "query w self (node_count_query n) None")
  from assms q1 q2 q3 q4 show ?thesis
    by (cases r1; cases r2; cases r3; cases r4)
       (auto simp: PrometheusService_get_cluster_metrics_def then_do_def pure_io_def)
qed

lemma ClusterMetrics_init_missing:
  "map_of kw ''cpu_usage'' = None \<Longrightarrow>
   ClusterMetrics_init w kw = Inl (ValidationError (validation_error_str w ''ClusterMetrics'' kw))"
  by (simp add: ClusterMetrics_init_def required_def)

lemma map_of_absent: "k \<notin> set (map fst kw) \<Longrightarrow> map_of kw k = None"
  by (simp add: map_of_eq_None_iff)

lemma get_cluster_metrics_rejects:
  "fst (get_cluster_metrics w cluster_id CLUSTERS) \<noteq> Inr m"
proof
  assume ok: "fst (get_cluster_metrics w cluster_id CLUSTERS) = Inr m"
  then obtain cluster :: Cluster and url where
    url: "url \<noteq> []" and
    run: "fst (except_http 500
            (then_do (PrometheusService_get_cluster_metrics w (PrometheusService_init url)
                        (name cluster))
               (\<lambda>metrics. lift (ClusterMetrics_init w metrics)))) = Inr m"
    by (auto simp: get_cluster_metrics_def split: option.splits if_splits)
  obtain r cs where
    s: "PrometheusService_get_cluster_metrics w (PrometheusService_init url) (name cluster) = (r, cs)"
    by (cases "PrometheusService_get_cluster_metrics w (PrometheusService_init url) (name cluster)")
  show False
  proof (cases r)
    case (Inl e)
    with run s show False by (simp add: except_http_def then_do_def)
  next
    case (Inr d)
    with s have "map fst d = [''timestamp'', ''metrics'']"
      using metrics_dict_keys[of w "PrometheusService_init url" "name cluster" d] by simp
    then have "map_of d ''cpu_usage'' = None" by (simp add: map_of_absent)
    then have "ClusterMetrics_init w d =
        Inl (ValidationError (validation_error_str w ''ClusterMetrics'' d))"
      by (rule ClusterMetrics_init_missing)
    with run s Inr show False by (simp add: except_http_def then_do_def lift_def)
  qed
qed

lemma query_status_not_200:
  assumes "session_get w (ps_prometheus_url self @ ''/api/v1/query'') [(''query'', q)] = Inr r"
      and "resp_status r \<noteq> 200" and "resp_text r = Inr body"
  shows "query w self q None = (Inl (Exception (msg_prom @ body)),
           [Get (ps_prometheus_url self @ ''/api/v1/query'') [(''query'', q)]])"
  using assms by (simp add: query_def send_def)

lemma py_lower_Inr: "py_lower k = Inr kind \<Longrightarrow> \<exists>s. k = PStr s \<and> kind = lower s"
  by (cases k) auto

text \<open>Whatever the document, a kind that is not a string lowering to \<open>deployment\<close> sends
  nothing and returns no result.\<close>

lemma apply_manifest_other_kind:
  assumes "\<forall>k. py_get d ''kind'' (PStr '''') = Inr (PStr k) \<longrightarrow> lower k \<noteq> ''deployment''"
      and "safe_load w manifest = Inr d"
  shows "snd (apply_manifest w self manifest) = []
       \<and> fst (apply_manifest w self manifest) \<noteq> Inr (Some r)"
proof -
  have "kind \<noteq> ''deployment''"
    if "py_get d ''kind'' (PStr '''') = Inr k" "py_lower k = Inr kind" for k kind
    using that assms(1) by (auto dest: py_lower_Inr)
  then show ?thesis
    using assms(2)
    by (auto simp: apply_manifest_def io_defs split: sum.splits)
qed

section \<open>Registration\<close>

text \<open>
  Claim C1. When the connectivity probe of a registration request succeeds,
  \<open>create_cluster\<close> should return a new record with status \<open>active\<close> and append it
  to the registry. Evaluated on the request \<open>prod\<close> in the world where the probe
  answers three nodes and two namespaces, with an empty registry: the probe's dict has
  no key \<open>nodes\<close>, the lookup raises \<open>KeyError\<close>, and the handler answers status 400
  with detail \<open>'nodes'\<close> and leaves the registry empty.
\<close>

theorem create_cluster_probe_success_rejected:
  "probe world_up prod =
     (Inr [(''node_count'', PInt 3),
           (''namespaces'', PList [PStr ''default'', PStr ''kube-system''])],
      [ListNode, ListNamespace])
   \<and> create_cluster world_up prod [] =
     ((Inl (HTTPException 400 ([CHR 0x27] @ ''nodes'' @ [CHR 0x27])),
       [ListNode, ListNamespace]), [])"
  by (simp add: probe_def create_cluster_def io_defs k8s_defs world_up_def prod_def)

text \<open>
  Claim C3. When the connectivity probe of a registration request fails with an
  exception \<open>e\<close>, \<open>create_cluster\<close> answers status 400 with detail \<open>str(e)\<close>, and the
  registry, hence what \<open>get_clusters\<close> returns, is what it was before.
\<close>

theorem create_cluster_probe_failure:
  assumes "fst (probe w cluster) = Inl e"
  shows "fst (fst (create_cluster w cluster CLUSTERS)) = Inl (HTTPException 400 (str e))
       \<and> snd (create_cluster w cluster CLUSTERS) = CLUSTERS
       \<and> get_clusters (snd (create_cluster w cluster CLUSTERS)) = get_clusters CLUSTERS"
  using assms
  by (auto simp: probe_def create_cluster_def io_defs split: prod.splits sum.splits)

text \<open>In the world whose configuration file cannot be loaded the probe fails, and a
  registry holding one record is left as it was.\<close>

theorem create_cluster_probe_failure_witness:
  "fst (probe world_down prod) = Inl (Exception (msg_init @ ''Invalid kube-config file''))
   \<and> fst (fst (create_cluster world_down prod [cluster_b])) =
       Inl (HTTPException 400 (msg_init @ ''Invalid kube-config file''))
   \<and> snd (create_cluster world_down prod [cluster_b]) = [cluster_b]
   \<and> get_clusters (snd (create_cluster world_down prod [cluster_b])) = get_clusters [cluster_b]"
proof -
  have h: "fst (probe world_down prod) = Inl (Exception (msg_init @ ''Invalid kube-config file''))"
    by (simp add: probe_def io_defs k8s_defs world_down_def world_up_def prod_def)
  from create_cluster_probe_failure[OF h, of "[cluster_b]"] h show ?thesis by simp
qed



text \<open>
  Claim C7. An id that no earlier successful registration returned is not found: for
  a registry that a run of registrations has left, and an id that is neither in the
  registry the run started from nor the id of a record the run returned, the metrics
  handler and the pods handler both answer status 404, and send nothing.
\<close>

theorem unknown_id_not_found:
  assumes "registrations reqs cs0 = (replies, CLUSTERS)"
      and "cluster_id \<notin> id' ` set cs0"
      and "cluster_id \<notin> id' ` set (registered replies)"
  shows "get_cluster_metrics w cluster_id CLUSTERS =
           (Inl (HTTPException 404 msg_not_found), [])
       \<and> get_cluster_pods w cluster_id namespace CLUSTERS =
           (Inl (HTTPException 404 msg_not_found), [])"
proof -
  from registrations_registry[OF assms(1)] have "CLUSTERS = cs0 @ registered replies" .
  with assms(2,3) have "cluster_id \<notin> id' ` set CLUSTERS" by auto
  then have "find (\<lambda>c. id' c = cluster_id) CLUSTERS = None" by (rule find_None_id)
  then show ?thesis by (simp add: get_cluster_metrics_def get_cluster_pods_def)
qed

text \<open>After one registration attempt on the empty registry, the id \<open>1\<close> is not found.\<close>

theorem unknown_id_not_found_witness:
  "registrations [(world_up, prod)] [] =
     ([(Inl (HTTPException 400 ([CHR 0x27] @ ''nodes'' @ [CHR 0x27])),
        [ListNode, ListNamespace])], [])
   \<and> get_cluster_metrics world_up ''1'' [] = (Inl (HTTPException 404 msg_not_found), [])
   \<and> get_cluster_pods world_up ''1'' ''default'' [] =
       (Inl (HTTPException 404 msg_not_found), [])"
proof -
  have run: "registrations [(world_up, prod)] [] =
     ([(Inl (HTTPException 400 ([CHR 0x27] @ ''nodes'' @ [CHR 0x27])),
        [ListNode, ListNamespace])], [])"
    by (simp add: create_cluster_def io_defs k8s_defs world_up_def prod_def)
  from unknown_id_not_found[OF run, of "''1''" world_up "''default''"] run
  show ?thesis by simp
qed

section \<open>Listing\<close>

text \<open>
  Claim C8, as stated: the answer to \<open>GET /clusters\<close> holds no record's credentials.
  It does: for a registry holding \<open>cluster_a\<close>, the answer carries the field
  \<open>kubeconfig\<close> with the record's own value.
\<close>

theorem get_clusters_exposes_kubeconfig:
  "kubeconfig cluster_a = ''/etc/kube/prod.yaml''
   \<and> get_clusters_response [cluster_a] =
     [[(''name'', PStr ''prod''),
       (''description'', PNone),
       (''kubeconfig'', PStr ''/etc/kube/prod.yaml''),
       (''prometheus_url'', PStr ''http://prometheus:9090/''),
       (''id'', PStr ''1''),
       (''status'', PStr ''active''),
       (''nodes'', PList []),
       (''namespaces'', PList [PStr ''default'', PStr ''kube-system''])]]"
  by (simp add: get_clusters_response_def get_clusters_def Cluster_dump_def cluster_a_def
        optional_str_def)

text \<open>
  Claim C8, amended. For every registry, the answer to \<open>GET /clusters\<close> lists the
  records in registry order, each with all its fields, and the field \<open>kubeconfig\<close> of
  each entry is the record's credentials, unchanged.
\<close>

theorem get_clusters_response_full:
  "get_clusters_response CLUSTERS = map Cluster_dump CLUSTERS
   \<and> map (\<lambda>d. map_of d ''kubeconfig'') (get_clusters_response CLUSTERS) =
       map (\<lambda>c. Some (PStr (kubeconfig c))) CLUSTERS"
  by (simp add: get_clusters_response_def get_clusters_def Cluster_dump_def)

section \<open>Metrics\<close>

text \<open>
  Claim C2. The metrics service should return a flat snapshot with the keys
  \<open>timestamp\<close>, \<open>cpu_usage\<close>, \<open>memory_usage\<close>, \<open>pod_count\<close> and \<open>node_count\<close>, and
  the metrics handler should return it. Evaluated for the record \<open>cluster_a\<close> in the
  world where every query is answered: the service returns a dict with the two keys
  \<open>timestamp\<close> and \<open>metrics\<close>, the four results nested under the second, so
  \<open>ClusterMetrics\<close> lacks its required fields and the handler answers status 500.
\<close>

theorem metrics_snapshot_nested_rejected:
  "fst (PrometheusService_get_cluster_metrics world_up
          (PrometheusService_init ''http://prometheus:9090/'') ''prod'') =
     Inr [(''timestamp'', PStr ''2024-01-01T00:00:00''),
          (''metrics'', PDict
             [(PStr ''cpu_usage'', PDict [(PStr ''status'', PStr ''success'')]),
              (PStr ''memory_usage'', PDict [(PStr ''status'', PStr ''success'')]),
              (PStr ''pod_count'', PDict [(PStr ''status'', PStr ''success'')]),
              (PStr ''node_count'', PDict [(PStr ''status'', PStr ''success'')])])]
   \<and> fst (get_cluster_metrics world_up ''1'' [cluster_a]) =
     Inl (HTTPException 500 ''validation error for ClusterMetrics'')
   \<and> length (snd (get_cluster_metrics world_up ''1'' [cluster_a])) = 4"
  by (simp add: get_cluster_metrics_def PrometheusService_get_cluster_metrics_def
        PrometheusService_init_def query_def ClusterMetrics_init_def required_def
        io_defs world_up_def cluster_a_def rstrip_def)

text \<open>
  Claim C5. If one of the four queries of the cluster metrics fails, the operation
  fails with the exception of a failing query and returns no snapshot; likewise for the
  three queries of the pod metrics.
\<close>

theorem metrics_all_or_nothing:
  "((\<exists>q \<in> set [cpu_usage_query n, memory_usage_query n, pod_count_query n,
                 node_count_query n].
       \<exists>e. fst (query w self q None) = Inl e)
     \<longrightarrow> (\<exists>q \<in> set [cpu_usage_query n, memory_usage_query n, pod_count_query n,
                      node_count_query n].
           \<exists>e. fst (query w self q None) = Inl e
             \<and> fst (PrometheusService_get_cluster_metrics w self n) = Inl e))
   \<and> ((\<exists>q \<in> set [pod_cpu_query n ns p, pod_memory_query n ns p, pod_network_query n ns p].
       \<exists>e. fst (query w self q None) = Inl e)
     \<longrightarrow> (\<exists>q \<in> set [pod_cpu_query n ns p, pod_memory_query n ns p,
                      pod_network_query n ns p].
           \<exists>e. fst (query w self q None) = Inl e
             \<and> fst (get_pod_metrics w self n ns p) = Inl e))"
proof -
  obtain r1 c1 where q1: "query w self (cpu_usage_query n) None = (r1, c1)"
    by (cases "query w self (cpu_usage_query n) None")
  obtain r2 c2 where q2: "query w self (memory_usage_query n) None = (r2, c2)"
    by (cases "query w self (memory_usage_query n) None")
  obtain r3 c3 where q3: "query w self (pod_count_query n) None = (r3, c3)"
    by (cases "query w self (pod_count_query n) None")
  obtain r4 c4 where q4: "query w self (node_count_query n) None = (r4, c4)"
    by (cases "query w self (node_count_query n) None")
  have cluster: "(\<exists>q \<in> set [cpu_usage_query n, memory_usage_query n, pod_count_query n,
                 node_count_query n].
       \<exists>e. fst (query w self q None) = Inl e)
     \<longrightarrow> (\<exists>q \<in> set [cpu_usage_query n, memory_usage_query n, pod_count_query n,
                      node_count_query n].
           \<exists>e. fst (query w self q None) = Inl e
             \<and> fst (PrometheusService_get_cluster_metrics w self n) = Inl e)"
    using q1 q2 q3 q4
    by (cases r1; cases r2; cases r3; cases r4)
       (simp_all add: PrometheusService_get_cluster_metrics_def then_do_def pure_io_def)
  obtain s1 d1 where p1: "query w self (pod_cpu_query n ns p) None = (s1, d1)"
    by (cases "query w self (pod_cpu_query n ns p) None")
  obtain s2 d2 where p2: "query w self (pod_memory_query n ns p) None = (s2, d2)"
    by (cases "query w self (pod_memory_query n ns p) None")
  obtain s3 d3 where p3: "query w self (pod_network_query n ns p) None = (s3, d3)"
    by (cases "query w self (pod_network_query n ns p) None")
  have pod: "(\<exists>q \<in> set [pod_cpu_query n ns p, pod_memory_query n ns p,
                 pod_network_query n ns p].
       \<exists>e. fst (query w self q None) = Inl e)
     \<longrightarrow> (\<exists>q \<in> set [pod_cpu_query n ns p, pod_memory_query n ns p,
                      pod_network_query n ns p].
           \<exists>e. fst (query w self q None) = Inl e
             \<and> fst (get_pod_metrics w self n ns p) = Inl e)"
    using p1 p2 p3
    by (cases s1; cases s2; cases s3)
       (simp_all add: get_pod_metrics_def then_do_def pure_io_def)
  from cluster pod show ?thesis by blast
qed

text \<open>In the world where Prometheus rejects the pod count and the network rate, both
  operations fail although the other queries are answered.\<close>

theorem metrics_all_or_nothing_witness:
  "fst (query world_partial prom (cpu_usage_query ''prod'') None) =
     Inr (PDict [(PStr ''status'', PStr ''success'')])
   \<and> fst (query world_partial prom (pod_count_query ''prod'') None) =
     Inl (Exception (msg_prom @ ''Service Unavailable''))
   \<and> (\<exists>e. fst (PrometheusService_get_cluster_metrics world_partial prom ''prod'') = Inl e)
   \<and> fst (query world_partial prom (pod_network_query ''prod'' ''default'' ''web-0'') None) =
     Inl (Exception (msg_prom @ ''Service Unavailable''))
   \<and> (\<exists>e. fst (get_pod_metrics world_partial prom ''prod'' ''default'' ''web-0'') = Inl e)"
proof -
  have up: "fst (query world_partial prom (cpu_usage_query ''prod'') None) =
     Inr (PDict [(PStr ''status'', PStr ''success'')])"
    by (simp add: query_def send_def world_partial_def world_up_def cpu_usage_query_def
          pod_count_query_def pod_network_query_def)
  have a: "fst (query world_partial prom (pod_count_query ''prod'') None) =
     Inl (Exception (msg_prom @ ''Service Unavailable''))"
    by (simp add: query_def send_def world_partial_def world_up_def)
  have b: "fst (query world_partial prom (pod_network_query ''prod'' ''default'' ''web-0'') None) =
     Inl (Exception (msg_prom @ ''Service Unavailable''))"
    by (simp add: query_def send_def world_partial_def world_up_def)
  have ha: "\<exists>q \<in> set [cpu_usage_query ''prod'', memory_usage_query ''prod'',
                 pod_count_query ''prod'', node_count_query ''prod''].
       \<exists>e. fst (query world_partial prom q None) = Inl e"
    using a by simp
  have hb: "\<exists>q \<in> set [pod_cpu_query ''prod'' ''default'' ''web-0'',
                 pod_memory_query ''prod'' ''default'' ''web-0'',
                 pod_network_query ''prod'' ''default'' ''web-0''].
       \<exists>e. fst (query world_partial prom q None) = Inl e"
    using b by simp
  from metrics_all_or_nothing[of "''prod''" world_partial prom "''default''" "''web-0''"] ha hb
  have "(\<exists>e. fst (PrometheusService_get_cluster_metrics world_partial prom ''prod'') = Inl e)
      \<and> (\<exists>e. fst (get_pod_metrics world_partial prom ''prod'' ''default'' ''web-0'') = Inl e)"
    by blast
  with up a b show ?thesis by simp
qed

text \<open>
  Claim C9. For a registered cluster whose \<open>prometheus_url\<close> is absent, the metrics
  handler answers status 400, a client fault, and sends no query.
\<close>

theorem metrics_without_prometheus_url:
  assumes "find (\<lambda>c. id' c = cluster_id) CLUSTERS = Some cluster"
      and "prometheus_url cluster = None"
  shows "get_cluster_metrics w cluster_id CLUSTERS =
           (Inl (HTTPException 400 msg_no_prometheus), [])"
  using assms by (simp add: get_cluster_metrics_def)

theorem metrics_without_prometheus_url_witness:
  "find (\<lambda>c. id' c = ''2'') [cluster_a, cluster_b, cluster_c] = Some cluster_b
   \<and> prometheus_url cluster_b = None
   \<and> get_cluster_metrics world_up ''2'' [cluster_a, cluster_b, cluster_c] =
       (Inl (HTTPException 400 msg_no_prometheus), [])"
proof -
  have f: "find (\<lambda>c. id' c = ''2'') [cluster_a, cluster_b, cluster_c] = Some cluster_b"
    by (simp add: cluster_a_def cluster_b_def cluster_c_def)
  have u: "prometheus_url cluster_b = None"
    by (simp add: cluster_b_def)
  from metrics_without_prometheus_url[OF f u, of world_up] f u show ?thesis by simp
qed

text \<open>
  Claim C10. For a registered cluster whose \<open>prometheus_url\<close> is the empty string,
  the metrics handler answers as it does for an absent one: status 400 with the same
  detail, and no query is sent.
\<close>

theorem metrics_with_empty_prometheus_url:
  assumes "find (\<lambda>c. id' c = cluster_id) CLUSTERS = Some cluster"
      and "prometheus_url cluster = Some ''''"
  shows "get_cluster_metrics w cluster_id CLUSTERS =
           (Inl (HTTPException 400 msg_no_prometheus), [])"
  using assms by (simp add: get_cluster_metrics_def)

theorem metrics_with_empty_prometheus_url_witness:
  "find (\<lambda>c. id' c = ''3'') [cluster_a, cluster_b, cluster_c] = Some cluster_c
   \<and> prometheus_url cluster_c = Some ''''
   \<and> get_cluster_metrics world_up ''3'' [cluster_a, cluster_b, cluster_c] =
       (Inl (HTTPException 400 msg_no_prometheus), [])"
proof -
  have f: "find (\<lambda>c. id' c = ''3'') [cluster_a, cluster_b, cluster_c] = Some cluster_c"
    by (simp add: cluster_a_def cluster_b_def cluster_c_def)
  have u: "prometheus_url cluster_c = Some ''''"
    by (simp add: cluster_c_def)
  from metrics_with_empty_prometheus_url[OF f u, of world_up] f u show ?thesis by simp
qed

section \<open>Manifests\<close>

text \<open>
  Claim C6, as stated: every manifest whose kind is \<open>deployment\<close>, whatever its case,
  leads to exactly one create call. It does not: the two documents of
  \<open>world_malformed\<close> have the kind \<open>Deployment\<close>, and \<open>apply_manifest\<close> raises for
  both without sending a call, at \<open>split\<close> on the numeric \<open>apiVersion\<close> and at
  \<open>get\<close> on the null metadata.
\<close>

theorem apply_manifest_malformed_deployment:
  "safe_load world_malformed numeric_version_text = Inr numeric_version_doc
   \<and> py_get numeric_version_doc ''kind'' (PStr '''') = Inr (PStr ''Deployment'')
   \<and> lower ''Deployment'' = ''deployment''
   \<and> apply_manifest world_malformed svc numeric_version_text =
       (Inl (Exception (msg_manifest @ str (AttributeError ''int'' ''split''))), [])
   \<and> safe_load world_malformed null_metadata_text = Inr null_metadata_doc
   \<and> py_get null_metadata_doc ''kind'' (PStr '''') = Inr (PStr ''Deployment'')
   \<and> apply_manifest world_malformed svc null_metadata_text =
       (Inl (Exception (msg_manifest @ str (AttributeError ''NoneType'' ''get''))), [])"
proof -
  have texts: "null_metadata_text \<noteq> numeric_version_text"
    by (simp add: null_metadata_text_def numeric_version_text_def)
  have l1: "safe_load world_malformed numeric_version_text = Inr numeric_version_doc"
    and l2: "safe_load world_malformed null_metadata_text = Inr null_metadata_doc"
    using texts by (simp_all add: world_malformed_def world_up_def)
  have low: "lower ''Deployment'' = ''deployment''"
    by (simp add: lower_def lower_char_def)
  have r1: "apply_manifest world_malformed svc numeric_version_text =
       (Inl (Exception (msg_manifest @ str (AttributeError ''int'' ''split''))), [])"
    using l1 by (simp add: apply_manifest_def io_defs numeric_version_doc_def)
  have r2: "apply_manifest world_malformed svc null_metadata_text =
       (Inl (Exception (msg_manifest @ str (AttributeError ''NoneType'' ''get''))), [])"
    using l2 low by (simp add: apply_manifest_def io_defs null_metadata_doc_def)
  from l1 l2 low r1 r2 show ?thesis
    by (simp add: numeric_version_doc_def null_metadata_doc_def)
qed

text \<open>
  Claim C6, amended. Let the manifest parse to a document. If its kind is a string that
  is \<open>deployment\<close> in lower case, its \<open>apiVersion\<close> is a string (or absent) and its
  metadata is a mapping (or absent), \<open>apply_manifest\<close> sends exactly one create call,
  with the document as body and the namespace of the metadata, \<open>default\<close> when the
  metadata names none, and returns what the call returns (an exception of the call is
  raised again). If its kind is anything else, \<open>apply_manifest\<close> sends nothing and
  returns no result; it returns \<open>None\<close> when the kind and the \<open>apiVersion\<close> are
  strings (or absent).
\<close>

theorem apply_manifest_dispatch:
  assumes "safe_load w manifest = Inr d"
  shows "(py_get d ''kind'' (PStr '''') = Inr (PStr k) \<and> lower k = ''deployment''
          \<and> py_get d ''apiVersion'' (PStr '''') = Inr (PStr v)
          \<and> py_get d ''metadata'' (PDict []) = Inr (PDict md) \<longrightarrow>
            apply_manifest w self manifest =
              (case create_namespaced_deployment w (ks_api_client self) d
                      (case map_of md (PStr ''namespace'') of
                         None \<Rightarrow> PStr ''default'' | Some ns \<Rightarrow> ns) of
                 Inl e \<Rightarrow> Inl (Exception (msg_manifest @ str e))
               | Inr result \<Rightarrow> Inr (Some result),
               [CreateNamespacedDeployment d
                  (case map_of md (PStr ''namespace'') of
                     None \<Rightarrow> PStr ''default'' | Some ns \<Rightarrow> ns)]))
       \<and> ((\<forall>k'. py_get d ''kind'' (PStr '''') = Inr (PStr k') \<longrightarrow> lower k' \<noteq> ''deployment'')
            \<longrightarrow> snd (apply_manifest w self manifest) = []
              \<and> (\<forall>r. fst (apply_manifest w self manifest) \<noteq> Inr (Some r)))
       \<and> (py_get d ''kind'' (PStr '''') = Inr (PStr k) \<and> lower k \<noteq> ''deployment''
          \<and> py_get d ''apiVersion'' (PStr '''') = Inr (PStr v) \<longrightarrow>
            apply_manifest w self manifest = (Inr None, []))"
proof (intro conjI impI allI)
  assume "py_get d ''kind'' (PStr '''') = Inr (PStr k) \<and> lower k = ''deployment''
          \<and> py_get d ''apiVersion'' (PStr '''') = Inr (PStr v)
          \<and> py_get d ''metadata'' (PDict []) = Inr (PDict md)"
  with assms show "apply_manifest w self manifest =
              (case create_namespaced_deployment w (ks_api_client self) d
                      (case map_of md (PStr ''namespace'') of
                         None \<Rightarrow> PStr ''default'' | Some ns \<Rightarrow> ns) of
                 Inl e \<Rightarrow> Inl (Exception (msg_manifest @ str e))
               | Inr result \<Rightarrow> Inr (Some result),
               [CreateNamespacedDeployment d
                  (case map_of md (PStr ''namespace'') of
                     None \<Rightarrow> PStr ''default'' | Some ns \<Rightarrow> ns)])"
    by (auto simp: apply_manifest_def io_defs split: sum.splits option.splits)
next
  assume other:
    "\<forall>k'. py_get d ''kind'' (PStr '''') = Inr (PStr k') \<longrightarrow> lower k' \<noteq> ''deployment''"
  from apply_manifest_other_kind[OF other assms]
  show "snd (apply_manifest w self manifest) = []" by simp
  fix r
  from apply_manifest_other_kind[OF other assms]
  show "fst (apply_manifest w self manifest) \<noteq> Inr (Some r)" by simp
next
  assume "py_get d ''kind'' (PStr '''') = Inr (PStr k) \<and> lower k \<noteq> ''deployment''
          \<and> py_get d ''apiVersion'' (PStr '''') = Inr (PStr v)"
  with assms show "apply_manifest w self manifest = (Inr None, [])"
    by (auto simp: apply_manifest_def io_defs split: sum.splits option.splits)
qed

text \<open>The four manifests: the first is created in \<open>staging\<close>; the second, with its
  kind in capitals and no metadata, in \<open>default\<close>; the service returns \<open>None\<close>; the
  numeric kind raises. Neither of the last two sends a call.\<close>

theorem apply_manifest_dispatch_witness:
  "apply_manifest world_up svc deployment_text =
     (Inr (Some deployment_doc), [CreateNamespacedDeployment deployment_doc (PStr ''staging'')])
   \<and> apply_manifest world_up svc bare_deployment_text =
     (Inr (Some bare_deployment_doc),
      [CreateNamespacedDeployment bare_deployment_doc (PStr ''default'')])
   \<and> apply_manifest world_up svc service_text = (Inr None, [])
   \<and> snd (apply_manifest world_up svc numeric_kind_text) = []
   \<and> fst (apply_manifest world_up svc numeric_kind_text) \<noteq> Inr (Some numeric_kind_doc)"
proof -
  have texts: "bare_deployment_text \<noteq> deployment_text" "service_text \<noteq> deployment_text"
    "service_text \<noteq> bare_deployment_text" "numeric_kind_text \<noteq> deployment_text"
    "numeric_kind_text \<noteq> bare_deployment_text" "numeric_kind_text \<noteq> service_text"
    by (simp_all add: deployment_text_def bare_deployment_text_def service_text_def
          numeric_kind_text_def)
  have l1: "safe_load world_up deployment_text = Inr deployment_doc"
    and l2: "safe_load world_up bare_deployment_text = Inr bare_deployment_doc"
    and l3: "safe_load world_up service_text = Inr service_doc"
    and l4: "safe_load world_up numeric_kind_text = Inr numeric_kind_doc"
    using texts by (simp_all add: world_up_def)
  have a1: "py_get deployment_doc ''apiVersion'' (PStr '''') = Inr (PStr ''apps/v1'')"
    and k1: "py_get deployment_doc ''kind'' (PStr '''') = Inr (PStr ''Deployment'')"
    and m1: "py_get deployment_doc ''metadata'' (PDict []) =
               Inr (PDict [(PStr ''name'', PStr ''web''), (PStr ''namespace'', PStr ''staging'')])"
    by (simp_all add: deployment_doc_def)
  have a2: "py_get bare_deployment_doc ''apiVersion'' (PStr '''') = Inr (PStr ''apps/v1'')"
    and k2: "py_get bare_deployment_doc ''kind'' (PStr '''') = Inr (PStr ''DEPLOYMENT'')"
    and m2: "py_get bare_deployment_doc ''metadata'' (PDict []) = Inr (PDict [])"
    by (simp_all add: bare_deployment_doc_def)
  have a3: "py_get service_doc ''apiVersion'' (PStr '''') = Inr (PStr ''v1'')"
    and k3: "py_get service_doc ''kind'' (PStr '''') = Inr (PStr ''Service'')"
    by (simp_all add: service_doc_def)
  have k4: "\<forall>k'. py_get numeric_kind_doc ''kind'' (PStr '''') = Inr (PStr k')
              \<longrightarrow> lower k' \<noteq> ''deployment''"
    by (simp add: numeric_kind_doc_def)
  have low: "lower ''Deployment'' = ''deployment''" "lower ''DEPLOYMENT'' = ''deployment''"
    "lower ''Service'' \<noteq> ''deployment''"
    by (simp_all add: lower_def lower_char_def)
  have c: "\<And>body ns. create_namespaced_deployment world_up (ks_api_client svc) body ns = Inr body"
    by (simp add: world_up_def)
  from apply_manifest_dispatch[OF l1, where self = svc and k = "''Deployment''"
      and v = "''apps/v1''"
      and md = "[(PStr ''name'', PStr ''web''), (PStr ''namespace'', PStr ''staging'')]"]
    a1 k1 m1 low
  have r1: "apply_manifest world_up svc deployment_text =
     (Inr (Some deployment_doc), [CreateNamespacedDeployment deployment_doc (PStr ''staging'')])"
    by (simp add: c)
  from apply_manifest_dispatch[OF l2, where self = svc and k = "''DEPLOYMENT''"
      and v = "''apps/v1''" and md = "[]"]
    a2 k2 m2 low
  have r2: "apply_manifest world_up svc bare_deployment_text =
     (Inr (Some bare_deployment_doc),
      [CreateNamespacedDeployment bare_deployment_doc (PStr ''default'')])"
    by (simp add: c)
  from apply_manifest_dispatch[OF l3, where self = svc and k = "''Service''" and v = "''v1''"]
    a3 k3 low
  have r3: "apply_manifest world_up svc service_text = (Inr None, [])"
    by simp
  from apply_manifest_dispatch[OF l4, where self = svc] k4
  have r4: "snd (apply_manifest world_up svc numeric_kind_text) = []
     \<and> fst (apply_manifest world_up svc numeric_kind_text) \<noteq> Inr (Some numeric_kind_doc)"
    by blast
  from r1 r2 r3 r4 show ?thesis by simp
qed

end
